theory Spec2Isabelle
  imports Complex_Main "HOL-Library.Word"
begin

unbundle bit_operations_syntax

section \<open>Data model\<close>

text \<open>
  The tracker component (\<^verbatim>\<open>RunningTracker\<close>) exists in two near-identical copies: the
  one with the throttled and smoothed pace block, and the one in
  \<^verbatim>\<open>src/app/running-map.tsx\<close> without it. The helper functions (\<^verbatim>\<open>calculateDistance\<close>,
  \<^verbatim>\<open>calculateTotalDistance\<close>, \<^verbatim>\<open>getRecentPositions\<close>, \<^verbatim>\<open>findClosestHeartRate\<close>,
  \<^verbatim>\<open>formatTime\<close>, \<^verbatim>\<open>formatPace\<close>, \<^verbatim>\<open>generateGPX\<close>, \<^verbatim>\<open>recordLap\<close>, \<^verbatim>\<open>reset\<close>) are
  the same text in both, up to the pace history that only the first copy has.

  JavaScript numbers are IEEE doubles. They are modelled here as exact numbers: \<open>real\<close>
  for coordinates, distances, paces and timestamps, \<open>nat\<close> for the elapsed-seconds
  counter, \<open>int\<close> for heart rates (which the decoder reads as unsigned integers).
  Rounding, \<^verbatim>\<open>NaN\<close> and overflow of doubles are outside this model; the one place where
  the code can divide by zero is written out where it occurs.
\<close>

record Position =
  latitude :: real
  longitude :: real
  longitude_accuracy :: "real option"
  latitude_accuracy :: "real option"
  altitude :: "real option"
  altitude_accuracy :: "real option"
  timestamp :: real

section \<open>Geometry\<close>

definition deg2rad :: "real \<Rightarrow> real" where
  "deg2rad deg = deg * (pi / 180)"

text \<open>
  \<^verbatim>\<open>Math.atan2(y, x)\<close> on real arguments: the angle of the point \<open>(x, y)\<close> in
  \<open>(-\<pi>, \<pi>]\<close>, and \<open>0\<close> at the origin.
\<close>

definition atan2 :: "real \<Rightarrow> real \<Rightarrow> real" where
  "atan2 y x =
     (if 0 < x then arctan (y / x)
      else if x < 0 then (if 0 \<le> y then arctan (y / x) + pi else arctan (y / x) - pi)
      else if 0 < y then pi / 2
      else if y < 0 then - (pi / 2)
      else 0)"

text \<open>The haversine term \<^verbatim>\<open>a\<close> of \<^verbatim>\<open>calculateDistance\<close>.\<close>

definition haversine_a :: "Position \<Rightarrow> Position \<Rightarrow> real" where
  "haversine_a pos1 pos2 =
     (let dLat = deg2rad (latitude pos2 - latitude pos1);
          dLon = deg2rad (longitude pos2 - longitude pos1)
      in sin (dLat / 2) * sin (dLat / 2)
         + cos (deg2rad (latitude pos1)) * cos (deg2rad (latitude pos2))
           * sin (dLon / 2) * sin (dLon / 2))"

definition calculateDistance :: "Position \<Rightarrow> Position \<Rightarrow> real" where
  "calculateDistance pos1 pos2 =
     (let R = 6371;
          a = haversine_a pos1 pos2;
          c = 2 * atan2 (sqrt a) (sqrt (1 - a))
      in R * c)"

text \<open>
  The loop of \<^verbatim>\<open>calculateTotalDistance\<close>: \<^verbatim>\<open>for (let i = 1; i < positions.length; i++)\<close>
  with the running \<^verbatim>\<open>total\<close> (here \<open>tot\<close>).
\<close>

function calculateTotalDistance_loop :: "Position list \<Rightarrow> nat \<Rightarrow> real \<Rightarrow> real" where
  "calculateTotalDistance_loop positions i tot =
     (if i < length positions
      then calculateTotalDistance_loop positions (i + 1)
             (tot + calculateDistance (positions ! (i - 1)) (positions ! i))
      else tot)"
  by pat_completeness auto
termination
  by (relation "measure (\<lambda>(positions, i, tot). length positions - i)") auto

definition calculateTotalDistance :: "Position list \<Rightarrow> real" where
  "calculateTotalDistance positions = calculateTotalDistance_loop positions 1 0"

definition getRecentPositions :: "Position list \<Rightarrow> real \<Rightarrow> Position list" where
  "getRecentPositions positions seconds =
     (if length positions \<le> 1 then positions
      else let now = timestamp (positions ! (length positions - 1));
               cutoff = now - seconds * 1000
           in filter (\<lambda>pos. timestamp pos \<ge> cutoff) positions)"



text \<open>A fix with coordinates and timestamp only, for concrete inputs.\<close>

definition fix_at :: "real \<Rightarrow> real \<Rightarrow> real \<Rightarrow> Position" where
  "fix_at lat lon ts =
     \<lparr>latitude = lat, longitude = lon, longitude_accuracy = None, latitude_accuracy = None,
      altitude = None, altitude_accuracy = None, timestamp = ts\<rparr>"


section \<open>Heart rate\<close>

record HeartRateData =
  hr_timestamp :: real
  heartRate :: int

text \<open>
  The loop of \<^verbatim>\<open>findClosestHeartRate\<close>: \<^verbatim>\<open>for (let i = 1; i < heartRates.length; i++)\<close>
  with the variables \<^verbatim>\<open>closest\<close> and \<^verbatim>\<open>minDiff\<close>. The parameter \<^verbatim>\<open>timestamp\<close> is
  written \<open>ts\<close>.
\<close>

function findClosestHeartRate_loop ::
  "HeartRateData list \<Rightarrow> real \<Rightarrow> nat \<Rightarrow> HeartRateData \<Rightarrow> real \<Rightarrow> HeartRateData \<times> real" where
  "findClosestHeartRate_loop heartRates ts i closest minDiff =
     (if i < length heartRates
      then (let diff = \<bar>ts - hr_timestamp (heartRates ! i)\<bar>
            in if diff < minDiff
               then findClosestHeartRate_loop heartRates ts (i + 1) (heartRates ! i) diff
               else findClosestHeartRate_loop heartRates ts (i + 1) closest minDiff)
      else (closest, minDiff))"
  by pat_completeness auto
termination
  by (relation "measure (\<lambda>(heartRates, ts, i, closest, minDiff). length heartRates - i)") auto

definition findClosestHeartRate :: "HeartRateData list \<Rightarrow> real \<Rightarrow> int option" where
  "findClosestHeartRate heartRates ts =
     (if length heartRates = 0 then None
      else let closest = heartRates ! 0;
               minDiff = \<bar>ts - hr_timestamp closest\<bar>;
               (closest', minDiff') = findClosestHeartRate_loop heartRates ts 1 closest minDiff
           in if minDiff' \<le> 10000 then Some (heartRate closest') else None)"

text \<open>The least absolute difference between the target and a sample's timestamp.\<close>

definition min_diff :: "HeartRateData list \<Rightarrow> real \<Rightarrow> real" where
  "min_diff heartRates ts = Min ((\<lambda>h. \<bar>ts - hr_timestamp h\<bar>) ` set heartRates)"

subsection \<open>Decoding a notification\<close>

text \<open>
  The value of the characteristic is a \<^verbatim>\<open>DataView\<close>: a sequence of bytes. Its accessors
  throw \<^verbatim>\<open>RangeError\<close> when the read would pass the end of the view.
\<close>

datatype js_error = RangeError

type_synonym DataView = "8 word list"

definition getUint8 :: "DataView \<Rightarrow> nat \<Rightarrow> js_error + int" where
  "getUint8 view byteOffset =
     (if byteOffset + 1 \<le> length view then Inr (uint (view ! byteOffset)) else Inl RangeError)"

definition getUint16 :: "DataView \<Rightarrow> nat \<Rightarrow> bool \<Rightarrow> js_error + int" where
  "getUint16 view byteOffset littleEndian =
     (if byteOffset + 2 \<le> length view
      then (let b0 = view ! byteOffset; b1 = view ! (byteOffset + 1)
            in Inr (uint (if littleEndian then word_cat b1 b0 else word_cat b0 b1 :: 16 word)))
      else Inl RangeError)"

text \<open>
  The two lines of the \<^verbatim>\<open>characteristicvaluechanged\<close> handler that parse the value:
  \<^verbatim>\<open>const flags = value.getUint8(0);\<close>
  \<^verbatim>\<open>const rate = flags & 0x1 ? value.getUint16(1, true) : value.getUint8(1);\<close>
\<close>

definition decodeMeasurement :: "DataView \<Rightarrow> js_error + int" where
  "decodeMeasurement value =
     (case getUint8 value 0 of
        Inl e \<Rightarrow> Inl e
      | Inr flags \<Rightarrow> if flags AND 1 \<noteq> 0 then getUint16 value 1 True else getUint8 value 1)"

section \<open>Formatting\<close>

text \<open>
  \<^verbatim>\<open>Number.prototype.toString\<close> on an integer: its decimal digits, with a minus sign
  when negative (as JavaScript prints integers below \<open>10\<^sup>2\<^sup>1\<close> in absolute value).
\<close>

definition digit_char :: "nat \<Rightarrow> char" where
  "digit_char d = ''0123456789'' ! d"

fun nat_toString :: "nat \<Rightarrow> string" where
  "nat_toString n =
     (if n < 10 then [digit_char n] else nat_toString (n div 10) @ [digit_char (n mod 10)])"

definition int_toString :: "int \<Rightarrow> string" where
  "int_toString i = (if i < 0 then ''-'' @ nat_toString (nat (- i)) else nat_toString (nat i))"

text \<open>\<^verbatim>\<open>String.prototype.padStart\<close> with a fill string of one character.\<close>

definition padStart :: "nat \<Rightarrow> char \<Rightarrow> string \<Rightarrow> string" where
  "padStart targetLength padChar str = replicate (targetLength - length str) padChar @ str"

definition formatTime :: "nat \<Rightarrow> string" where
  "formatTime seconds =
     (let hrs = seconds div 3600;
          mins = (seconds mod 3600) div 60;
          secs = seconds mod 60
      in if hrs > 0
         then nat_toString hrs @ '':'' @ padStart 2 CHR ''0'' (nat_toString mins)
              @ '':'' @ padStart 2 CHR ''0'' (nat_toString secs)
         else nat_toString mins @ '':'' @ padStart 2 CHR ''0'' (nat_toString secs))"

definition formatPace :: "real \<Rightarrow> string" where
  "formatPace pace =
     (let minutes = \<lfloor>pace\<rfloor>;
          seconds = \<lfloor>(pace - of_int minutes) * 60\<rfloor>
      in int_toString minutes @ '':'' @ padStart 2 CHR ''0'' (int_toString seconds))"

text \<open>\<^verbatim>\<open>Math.round\<close>: the nearest integer, a half rounded up.\<close>

definition Math_round :: "real \<Rightarrow> int" where
  "Math_round x = \<lfloor>x + 1 / 2\<rfloor>"

section \<open>The tracker component\<close>

record Lap =
  lap_number :: nat
  lap_time :: string
  lap_distance :: real
  lap_pace :: string
  avgHeartRate :: "int option"

record Activity =
  startTime :: real
  endTime :: real
  totalTime :: nat
  totalDistance :: real
  act_positions :: "Position list"
  act_heartRates :: "HeartRateData list"
  act_laps :: "Lap list"

text \<open>
  The state of \<^verbatim>\<open>RunningTracker\<close>: its \<^verbatim>\<open>useState\<close> variables and \<^verbatim>\<open>useRef\<close> cells
  under their own names (the state variable \<^verbatim>\<open>heartRate\<close> is \<open>currentHeartRate\<close>
  here), and the two browser resources the component owns: the identifiers of the
  geolocation watches and of the interval timers that are active. The copy in
  \<^verbatim>\<open>running-map.tsx\<close> has no \<^verbatim>\<open>lastPaceUpdateRef\<close> and no \<^verbatim>\<open>recentPacesRef\<close>; its
  functions leave these two fields alone.
\<close>

record Tracker =
  isRunning :: bool
  time :: nat
  distance :: real
  currentPace :: string
  positions :: "Position list"
  laps :: "Lap list"
  watchId :: "nat option"
  permissionDenied :: bool
  error :: "string option"
  currentHeartRate :: "int option"
  heartRateData :: "HeartRateData list"
  isHeartRateConnected :: bool
  bluetoothSupported :: bool
  activityCompleted :: bool
  activity :: "Activity option"
  timerRef :: "nat option"
  lastPositionsRef :: "Position list"
  startTimeRef :: "real option"
  lastPaceUpdateRef :: real
  recentPacesRef :: "real list"
  geoWatches :: "nat set"
  intervals :: "nat set"

definition initial :: Tracker where
  "initial =
     \<lparr>isRunning = False, time = 0, distance = 0, currentPace = ''0:00'', positions = [],
      laps = [], watchId = None, permissionDenied = False, error = None,
      currentHeartRate = None, heartRateData = [], isHeartRateConnected = False,
      bluetoothSupported = True, activityCompleted = False, activity = None,
      timerRef = None, lastPositionsRef = [], startTimeRef = None, lastPaceUpdateRef = 0,
      recentPacesRef = [], geoWatches = {}, intervals = {}\<rparr>"

text \<open>
  Truthiness of an identifier that is \<^verbatim>\<open>null\<close> or a number: \<^verbatim>\<open>if (watchId)\<close>,
  \<^verbatim>\<open>if (timerRef.current)\<close>.
\<close>

definition truthy :: "nat option \<Rightarrow> bool" where
  "truthy v = (case v of None \<Rightarrow> False | Some n \<Rightarrow> n \<noteq> 0)"

definition clearInterval :: "nat option \<Rightarrow> Tracker \<Rightarrow> Tracker" where
  "clearInterval tid s =
     (case tid of None \<Rightarrow> s | Some n \<Rightarrow> s\<lparr>intervals := intervals s - {n}\<rparr>)"

definition clearWatch :: "nat option \<Rightarrow> Tracker \<Rightarrow> Tracker" where
  "clearWatch wid s =
     (case wid of None \<Rightarrow> s | Some n \<Rightarrow> s\<lparr>geoWatches := geoWatches s - {n}\<rparr>)"

subsection \<open>The timer effect\<close>

text \<open>
  The body of the effect "Start/stop the timer". \<open>now\<close> is the value of \<^verbatim>\<open>Date.now()\<close>,
  \<open>tid\<close> the identifier that \<^verbatim>\<open>setInterval\<close> returns. The ticks themselves are
  \<open>tick\<close>.
\<close>

definition timerEffect :: "real \<Rightarrow> nat \<Rightarrow> Tracker \<Rightarrow> Tracker" where
  "timerEffect now tid s =
     (if isRunning s then
        (let s1 = (if startTimeRef s = None then s\<lparr>startTimeRef := Some now\<rparr> else s)
         in s1\<lparr>timerRef := Some tid, intervals := insert tid (intervals s1)\<rparr>)
      else if truthy (timerRef s) then
        (let s1 = clearInterval (timerRef s) s
         in if time s1 > 0 \<and> length (positions s1) > 0 then
              (let endTime = now
               in s1\<lparr>activityCompleted := True,
                     activity := Some
                       \<lparr>startTime =
                          (case startTimeRef s1 of
                             None \<Rightarrow> endTime - real (time s1) * 1000
                           | Some st \<Rightarrow> if st \<noteq> 0 then st else endTime - real (time s1) * 1000),
                        endTime = endTime,
                        totalTime = time s1,
                        totalDistance = distance s1,
                        act_positions = positions s1,
                        act_heartRates = heartRateData s1,
                        act_laps = laps s1\<rparr>\<rparr>)
            else s1)
      else s)"

text \<open>The cleanup function that the timer effect returns.\<close>

definition timerCleanup :: "Tracker \<Rightarrow> Tracker" where
  "timerCleanup s = (if truthy (timerRef s) then clearInterval (timerRef s) s else s)"

definition tick :: "Tracker \<Rightarrow> Tracker" where
  "tick s = s\<lparr>time := time s + 1\<rparr>"

subsection \<open>The geolocation effect\<close>

text \<open>
  The body of the effect "Start/stop GPS tracking", without the callbacks (they follow).
  \<open>supported\<close> tells whether \<^verbatim>\<open>navigator.geolocation\<close> exists, \<open>wid\<close> is the
  identifier that \<^verbatim>\<open>watchPosition\<close> returns. The cleanup function clears the watch
  whose identifier the render that created it saw.
\<close>

definition gpsEffect :: "bool \<Rightarrow> nat \<Rightarrow> Tracker \<Rightarrow> Tracker" where
  "gpsEffect supported wid s =
     (if \<not> supported then s\<lparr>error := Some ''Geolocation is not supported by your browser''\<rparr>
      else if isRunning s \<and> \<not> truthy (watchId s) then
        s\<lparr>geoWatches := insert wid (geoWatches s), watchId := Some wid\<rparr>
      else if \<not> isRunning s \<and> truthy (watchId s) then
        (clearWatch (watchId s) s)\<lparr>watchId := None\<rparr>
      else s)"

definition gpsCleanup :: "nat option \<Rightarrow> Tracker \<Rightarrow> Tracker" where
  "gpsCleanup renderedWatchId s =
     (if truthy renderedWatchId then clearWatch renderedWatchId s else s)"

text \<open>
  The effects of the render that follows a change of \<^verbatim>\<open>isRunning\<close> (a dependency of
  both effects): the cleanup functions of the previous render \<open>prev\<close>, then the two
  effect bodies, in the order of the source.
\<close>

definition runEffects :: "real \<Rightarrow> nat \<Rightarrow> nat \<Rightarrow> Tracker \<Rightarrow> Tracker \<Rightarrow> Tracker" where
  "runEffects now tid wid prev s =
     gpsEffect True wid (timerEffect now tid (gpsCleanup (watchId prev) (timerCleanup s)))"

subsection \<open>The handlers\<close>

definition startStop :: "Tracker \<Rightarrow> Tracker" where
  "startStop s = s\<lparr>isRunning := \<not> isRunning s\<rparr>"

definition reset :: "Tracker \<Rightarrow> Tracker" where
  "reset s =
     (let s1 = s\<lparr>isRunning := False, time := 0, distance := 0, currentPace := ''0:00'',
                 positions := [], laps := [], heartRateData := [],
                 activityCompleted := False, activity := None,
                 lastPositionsRef := [], startTimeRef := None, recentPacesRef := []\<rparr>
      in if truthy (watchId s) then (clearWatch (watchId s) s1)\<lparr>watchId := None\<rparr> else s1)"

definition recordLap :: "Tracker \<Rightarrow> Tracker" where
  "recordLap s =
     (if \<not> isRunning s then s
      else
        (let lapNumber = length (laps s) + 1;
             lapTime = formatTime (time s);
             lapDistance = distance s;
             lapPace = currentPace s;
             avg =
               (if length (heartRateData s) > 0 then
                  (let sum = foldl (\<lambda>acc data. acc + heartRate data) 0 (heartRateData s)
                   in Some (Math_round (real_of_int sum / real (length (heartRateData s)))))
                else None)
         in s\<lparr>laps := laps s
                  @ [\<lparr>lap_number = lapNumber, lap_time = lapTime, lap_distance = lapDistance,
                      lap_pace = lapPace, avgHeartRate = avg\<rparr>]\<rparr>))"

text \<open>
  The \<^verbatim>\<open>characteristicvaluechanged\<close> handler. \<open>value\<close> is \<^verbatim>\<open>target.value\<close>, absent
  or a view; an exception of the accessors leaves the handler before any state is set.
\<close>

definition onCharacteristicValueChanged ::
  "real \<Rightarrow> DataView option \<Rightarrow> Tracker \<Rightarrow> js_error + Tracker" where
  "onCharacteristicValueChanged now value s =
     (case value of
        None \<Rightarrow> Inr s
      | Some view \<Rightarrow>
          (case decodeMeasurement view of
             Inl e \<Rightarrow> Inl e
           | Inr rate \<Rightarrow>
               Inr (s\<lparr>currentHeartRate := Some rate,
                      heartRateData := heartRateData s
                        @ [\<lparr>hr_timestamp = now, heartRate = rate\<rparr>]\<rparr>)))"

subsection \<open>The position callbacks\<close>

record GeolocationPosition =
  coords_latitude :: real
  coords_longitude :: real
  coords_accuracy :: real
  coords_altitude :: "real option"
  coords_altitudeAccuracy :: "real option"
  geo_timestamp :: real

text \<open>\<^verbatim>\<open>x || undefined\<close> on a number or \<^verbatim>\<open>null\<close>: zero and \<^verbatim>\<open>null\<close> become absent.\<close>

definition or_undefined :: "real option \<Rightarrow> real option" where
  "or_undefined v = (case v of None \<Rightarrow> None | Some x \<Rightarrow> if x = 0 then None else Some x)"

definition newPosition :: "GeolocationPosition \<Rightarrow> Position" where
  "newPosition position =
     \<lparr>latitude = coords_latitude position,
      longitude = coords_longitude position,
      longitude_accuracy = Some (coords_accuracy position),
      latitude_accuracy = Some (coords_accuracy position),
      altitude = or_undefined (coords_altitude position),
      altitude_accuracy = or_undefined (coords_altitudeAccuracy position),
      timestamp = geo_timestamp position\<rparr>"

text \<open>
  The duration of a window of fixes in minutes:
  \<^verbatim>\<open>(recentPositions[recentPositions.length - 1].timestamp - recentPositions[0].timestamp) / 1000 / 60\<close>.
\<close>

definition timeInMinutes :: "Position list \<Rightarrow> real" where
  "timeInMinutes recentPositions =
     (timestamp (recentPositions ! (length recentPositions - 1))
        - timestamp (recentPositions ! 0)) / 1000 / 60"

text \<open>
  The pace block of the copy with the throttle (the block under
  \<^verbatim>\<open>if (time > 0 && newDistance > 0)\<close>). \<open>now\<close> is \<^verbatim>\<open>Date.now()\<close>.
\<close>

definition updatePace :: "real \<Rightarrow> Tracker \<Rightarrow> Tracker" where
  "updatePace now s =
     (if now - lastPaceUpdateRef s > 5000 then
        (let s1 = s\<lparr>lastPaceUpdateRef := now\<rparr>;
             recentPositions = getRecentPositions (lastPositionsRef s1) 60
         in if length recentPositions > 1 then
              (let recentDistance = calculateTotalDistance recentPositions;
                   recentTimeInMinutes = timeInMinutes recentPositions
               in if recentTimeInMinutes > 0 \<and> recentDistance > 0 then
                    (let pace = recentTimeInMinutes / recentDistance;
                         pushed = recentPacesRef s1 @ [pace];
                         kept = (if length pushed > 3 then tl pushed else pushed);
                         avgPace = foldl (\<lambda>sum p. sum + p) 0 kept / real (length kept)
                     in s1\<lparr>recentPacesRef := kept, currentPace := formatPace avgPace\<rparr>)
                  else s1)
            else s1)
      else s)"

text \<open>
  The success callback of \<^verbatim>\<open>watchPosition\<close>. \<open>capturedTime\<close> is the value of the state
  variable \<^verbatim>\<open>time\<close> in the render that created the callback: the callback closes over
  it. The updater passed to \<^verbatim>\<open>setPositions\<close> is taken to run at once, so that
  \<^verbatim>\<open>lastPositionsRef.current\<close> holds the new fix when the callback reads it.
\<close>

definition onPosition :: "nat \<Rightarrow> real \<Rightarrow> GeolocationPosition \<Rightarrow> Tracker \<Rightarrow> Tracker" where
  "onPosition capturedTime now position s =
     (let updated = positions s @ [newPosition position];
          s1 = s\<lparr>positions := updated, lastPositionsRef := updated\<rparr>
      in if length (lastPositionsRef s1) > 1 then
           (let newDistance = calculateTotalDistance (lastPositionsRef s1);
                s2 = s1\<lparr>distance := newDistance\<rparr>
            in if capturedTime > 0 \<and> newDistance > 0 then updatePace now s2 else s2)
         else s1)"

text \<open>
  The pace block of the copy in \<^verbatim>\<open>running-map.tsx\<close>: a window of 30 seconds, no
  throttle, no history, and no test of \<^verbatim>\<open>recentDistance\<close>. When the window has a
  positive duration and distance zero the quotient is \<^verbatim>\<open>Infinity\<close>, which
  \<^verbatim>\<open>formatPace\<close> prints as \<^verbatim>\<open>Infinity:NaN\<close>.
\<close>

definition updatePace_unsmoothed :: "Tracker \<Rightarrow> Tracker" where
  "updatePace_unsmoothed s =
     (let recentPositions = getRecentPositions (lastPositionsRef s) 30
      in if length recentPositions > 1 then
           (let recentDistance = calculateTotalDistance recentPositions;
                recentTimeInMinutes = timeInMinutes recentPositions
            in if recentTimeInMinutes > 0 then
                 (if recentDistance = 0 then s\<lparr>currentPace := ''Infinity:NaN''\<rparr>
                  else (let pace = recentTimeInMinutes / recentDistance
                        in s\<lparr>currentPace := formatPace pace\<rparr>))
               else s)
         else s)"

definition onPosition_unsmoothed ::
  "nat \<Rightarrow> GeolocationPosition \<Rightarrow> Tracker \<Rightarrow> Tracker" where
  "onPosition_unsmoothed capturedTime position s =
     (let updated = positions s @ [newPosition position];
          s1 = s\<lparr>positions := updated, lastPositionsRef := updated\<rparr>
      in if length (lastPositionsRef s1) > 1 then
           (let newDistance = calculateTotalDistance (lastPositionsRef s1);
                s2 = s1\<lparr>distance := newDistance\<rparr>
            in if capturedTime > 0 \<and> newDistance > 0 then updatePace_unsmoothed s2 else s2)
         else s1)"

text \<open>The error callback of \<^verbatim>\<open>watchPosition\<close>.\<close>

definition onPositionError :: "nat \<Rightarrow> string \<Rightarrow> Tracker \<Rightarrow> Tracker" where
  "onPositionError code message s =
     (let s1 = (if code = 1 then s\<lparr>permissionDenied := True\<rparr>
                else s\<lparr>error := Some (''Error: '' @ message)\<rparr>)
      in s1\<lparr>isRunning := False\<rparr>)"



section \<open>GPX export\<close>

text \<open>
  Two functions of the platform are parameters of the export: \<open>isoText\<close>, the ISO-8601 text
  of a valid time value (\<^verbatim>\<open>Date.prototype.toISOString\<close>), and \<open>str\<close>, the text of a
  number in a template literal. \<^verbatim>\<open>new Date(t)\<close> truncates \<open>t\<close> to an integer and is
  invalid beyond \<open>8.64 \<times> 10\<^sup>1\<^sup>5\<close> milliseconds; \<^verbatim>\<open>toISOString\<close> throws
  \<^verbatim>\<open>RangeError\<close> on an invalid date.
\<close>

definition trunc :: "real \<Rightarrow> int" where
  "trunc t = (if 0 \<le> t then \<lfloor>t\<rfloor> else \<lceil>t\<rceil>)"

definition Date_toISOString :: "(int \<Rightarrow> string) \<Rightarrow> real \<Rightarrow> js_error + string" where
  "Date_toISOString isoText t =
     (if \<bar>t\<bar> > 8640000000000000 then Inl RangeError else Inr (isoText (trunc t)))"

definition dq :: string where
  "dq = [CHR 0x22]"

definition nl :: string where
  "nl = [CHR 0x0A]"

text \<open>\<^verbatim>\<open>startDate.split("T")[0]\<close>\<close>

definition split_T_0 :: "string \<Rightarrow> string" where
  "split_T_0 startDate = takeWhile (\<lambda>c. c \<noteq> CHR ''T'') startDate"

definition gpx_header :: "string \<Rightarrow> string" where
  "gpx_header startDate =
     ''<?xml version='' @ dq @ ''1.0'' @ dq @ '' encoding='' @ dq @ ''UTF-8'' @ dq @ ''?>'' @ nl
     @ ''<gpx creator='' @ dq @ ''Running Tracker App'' @ dq @ '' version='' @ dq @ ''1.1'' @ dq
     @ '' xmlns='' @ dq @ ''http://www.topografix.com/GPX/1/1'' @ dq @ ''>'' @ nl
     @ ''  <metadata>'' @ nl
     @ ''    <name>Running Activity</name>'' @ nl
     @ ''    <time>'' @ startDate @ ''</time>'' @ nl
     @ ''  </metadata>'' @ nl
     @ ''  <trk>'' @ nl
     @ ''    <name>Running Activity on '' @ split_T_0 startDate @ ''</name>'' @ nl
     @ ''    <trkseg>'' @ nl"

definition gpx_footer :: string where
  "gpx_footer = ''    </trkseg>'' @ nl @ ''  </trk>'' @ nl @ ''</gpx>''"

definition trkpt_open :: "(real \<Rightarrow> string) \<Rightarrow> Position \<Rightarrow> string" where
  "trkpt_open str pos =
     ''      <trkpt lat='' @ dq @ str (latitude pos) @ dq @ '' lon='' @ dq
     @ str (longitude pos) @ dq @ ''>'' @ nl"

definition ele_element :: "(real \<Rightarrow> string) \<Rightarrow> real \<Rightarrow> string" where
  "ele_element str alt = ''        <ele>'' @ str alt @ ''</ele>'' @ nl"

definition time_element :: "string \<Rightarrow> string" where
  "time_element timeText = ''        <time>'' @ timeText @ ''</time>'' @ nl"

definition extensions_block :: "int \<Rightarrow> string" where
  "extensions_block closestHR =
     ''        <extensions>'' @ nl
     @ ''          <gpxtpx:TrackPointExtension xmlns:gpxtpx='' @ dq
     @ ''http://www.garmin.com/xmlschemas/TrackPointExtension/v1'' @ dq @ ''>'' @ nl
     @ ''            <gpxtpx:hr>'' @ int_toString closestHR @ ''</gpxtpx:hr>'' @ nl
     @ ''          </gpxtpx:TrackPointExtension>'' @ nl
     @ ''        </extensions>'' @ nl"

definition trkpt_close :: string where
  "trkpt_close = ''      </trkpt>'' @ nl"

text \<open>
  Truthiness of the result of \<^verbatim>\<open>findClosestHeartRate\<close>, a number or \<^verbatim>\<open>null\<close>:
  \<^verbatim>\<open>if (closestHR)\<close>.
\<close>

definition truthy_number :: "int option \<Rightarrow> bool" where
  "truthy_number v = (case v of None \<Rightarrow> False | Some n \<Rightarrow> n \<noteq> 0)"

text \<open>One turn of \<^verbatim>\<open>activity.positions.forEach\<close>, on the text \<open>gpx\<close> built so far.\<close>

definition appendTrackPoint ::
  "(int \<Rightarrow> string) \<Rightarrow> (real \<Rightarrow> string) \<Rightarrow> Activity \<Rightarrow> Position \<Rightarrow> string \<Rightarrow> js_error + string" where
  "appendTrackPoint isoText str act pos gpx =
     (case Date_toISOString isoText (timestamp pos) of
        Inl e \<Rightarrow> Inl e
      | Inr timeText \<Rightarrow>
          (let gpx1 = gpx @ trkpt_open str pos;
               gpx2 = (if altitude pos \<noteq> None then gpx1 @ ele_element str (the (altitude pos))
                       else gpx1);
               gpx3 = gpx2 @ time_element timeText;
               closestHR = findClosestHeartRate (act_heartRates act) (timestamp pos);
               gpx4 = (if truthy_number closestHR then gpx3 @ extensions_block (the closestHR)
                       else gpx3)
           in Inr (gpx4 @ trkpt_close)))"

fun forEach_position ::
  "(int \<Rightarrow> string) \<Rightarrow> (real \<Rightarrow> string) \<Rightarrow> Activity \<Rightarrow> Position list \<Rightarrow> string \<Rightarrow> js_error + string" where
  "forEach_position isoText str act [] gpx = Inr gpx"
| "forEach_position isoText str act (pos # rest) gpx =
     (case appendTrackPoint isoText str act pos gpx of
        Inl e \<Rightarrow> Inl e
      | Inr gpx' \<Rightarrow> forEach_position isoText str act rest gpx')"

definition generateGPX ::
  "(int \<Rightarrow> string) \<Rightarrow> (real \<Rightarrow> string) \<Rightarrow> Activity \<Rightarrow> js_error + string" where
  "generateGPX isoText str act =
     (case Date_toISOString isoText (startTime act) of
        Inl e \<Rightarrow> Inl e
      | Inr startDate \<Rightarrow>
          (case forEach_position isoText str act (act_positions act) (gpx_header startDate) of
             Inl e \<Rightarrow> Inl e
           | Inr gpx \<Rightarrow> Inr (gpx @ gpx_footer)))"

text \<open>
  The track point as the specification describes it: \<^verbatim>\<open><ele>\<close> when the altitude is
  present, \<^verbatim>\<open><time>\<close> always, the extensions block when \<^verbatim>\<open>findClosestHeartRate\<close>
  finds a value.
\<close>

definition spec_trkpt ::
  "(int \<Rightarrow> string) \<Rightarrow> (real \<Rightarrow> string) \<Rightarrow> HeartRateData list \<Rightarrow> Position \<Rightarrow> string" where
  "spec_trkpt isoText str heartRates pos =
     trkpt_open str pos
     @ (case altitude pos of None \<Rightarrow> [] | Some alt \<Rightarrow> ele_element str alt)
     @ time_element (isoText (trunc (timestamp pos)))
     @ (case findClosestHeartRate heartRates (timestamp pos) of
          None \<Rightarrow> [] | Some hr \<Rightarrow> extensions_block hr)
     @ trkpt_close"

text \<open>The track point that the code writes: no extensions block for a rate of zero.\<close>

definition code_trkpt ::
  "(int \<Rightarrow> string) \<Rightarrow> (real \<Rightarrow> string) \<Rightarrow> HeartRateData list \<Rightarrow> Position \<Rightarrow> string" where
  "code_trkpt isoText str heartRates pos =
     trkpt_open str pos
     @ (case altitude pos of None \<Rightarrow> [] | Some alt \<Rightarrow> ele_element str alt)
     @ time_element (isoText (trunc (timestamp pos)))
     @ (case findClosestHeartRate heartRates (timestamp pos) of
          None \<Rightarrow> []
        | Some hr \<Rightarrow> if hr = 0 then [] else extensions_block hr)
     @ trkpt_close"

definition valid_date :: "real \<Rightarrow> bool" where
  "valid_date t = (\<bar>t\<bar> \<le> 8640000000000000)"

section \<open>The pace estimator as specified\<close>

text \<open>
  The fixes of the last 60 seconds (counted back from the timestamp of the last fix), the
  last three entries of a history, the arithmetic mean, and two decimal digits.
\<close>

definition window60 :: "Position list \<Rightarrow> Position list" where
  "window60 fixes = filter (\<lambda>p. timestamp (last fixes) - 60000 \<le> timestamp p) fixes"


definition mean :: "real list \<Rightarrow> real" where
  "mean history = sum_list history / real (length history)"

definition two_digits :: "nat \<Rightarrow> string" where
  "two_digits n = [digit_char (n div 10), digit_char (n mod 10)]"

text \<open>
  A delivery of a fix computes a raw pace when the callback was created with a positive
  elapsed time, the total distance is positive, more than 5 seconds of wall-clock time
  have passed since the last stamp, and the window holds at least 2 fixes of positive
  duration and positive distance.
\<close>

definition computesPace :: "nat \<Rightarrow> real \<Rightarrow> GeolocationPosition \<Rightarrow> Tracker \<Rightarrow> bool" where
  "computesPace capturedTime now position s =
     (let fixes = positions s @ [newPosition position]; w = window60 fixes
      in 0 < capturedTime \<and> 0 < calculateTotalDistance fixes
         \<and> 5000 < now - lastPaceUpdateRef s
         \<and> 2 \<le> length w \<and> 0 < timeInMinutes w \<and> 0 < calculateTotalDistance w)"


text \<open>The number that a text of decimal digits denotes.\<close>

definition digit_value :: "char \<Rightarrow> nat" where
  "digit_value c = of_char c - 48"

definition decimal_value :: "string \<Rightarrow> nat" where
  "decimal_value str = foldl (\<lambda>acc c. 10 * acc + digit_value c) 0 str"


section \<open>Example states and fix streams\<close>

text \<open>A recorder that has been running for 20 seconds and holds three fixes and one lap.\<close>

definition running_20s :: Tracker where
  "running_20s =
     initial\<lparr>isRunning := True, time := 20, distance := 1 / 10, currentPace := ''3:20'',
       positions := [fix_at 0 0 1700000000000, fix_at 0 (1 / 2000) 1700000010000,
                     fix_at 0 (1 / 1000) 1700000020000],
       lastPositionsRef := [fix_at 0 0 1700000000000, fix_at 0 (1 / 2000) 1700000010000,
                     fix_at 0 (1 / 1000) 1700000020000],
       laps := [\<lparr>lap_number = 1, lap_time = ''0:20'', lap_distance = 1 / 10,
                 lap_pace = ''3:20'', avgHeartRate = Some 151\<rparr>],
       heartRateData := [\<lparr>hr_timestamp = 1700000005000, heartRate = 150\<rparr>,
                         \<lparr>hr_timestamp = 1700000015000, heartRate = 151\<rparr>],
       watchId := Some 1, geoWatches := {1}, timerRef := Some 7, intervals := {7},
       startTimeRef := Some 1700000000000, recentPacesRef := [10 / 3]\<rparr>"

text \<open>A recorder that was started and has not counted a second yet.\<close>

definition running_0s :: Tracker where
  "running_0s =
     initial\<lparr>isRunning := True, watchId := Some 1, geoWatches := {1}, timerRef := Some 7,
       intervals := {7}, startTimeRef := Some 1700000000000\<rparr>"

text \<open>
  A fix on the equator, \<open>km\<close> kilometres east of longitude 0 (one kilometre of the
  equator is \<open>180 / (6371 \<pi>)\<close> degrees), as the location service delivers it.
\<close>

definition geo_km :: "real \<Rightarrow> real \<Rightarrow> GeolocationPosition" where
  "geo_km km ts =
     \<lparr>coords_latitude = 0, coords_longitude = km * 180 / (6371 * pi), coords_accuracy = 5,
      coords_altitude = None, coords_altitudeAccuracy = None, geo_timestamp = ts\<rparr>"


text \<open>
  An Activity with one fix and one heart-rate sample of 0 beats per minute taken at the
  time of the fix (a strap without skin contact reports 0).
\<close>

definition zero_hr_activity :: Activity where
  "zero_hr_activity =
     \<lparr>startTime = 1700000000000, endTime = 1700000020000, totalTime = 20,
      totalDistance = 0,
      act_positions = [fix_at 48 2 1700000000000],
      act_heartRates = [\<lparr>hr_timestamp = 1700000000000, heartRate = 0\<rparr>],
      act_laps = []\<rparr>"
section \<open>Geometry: properties\<close>




















section \<open>Heart rate: properties\<close>

lemma findClosestHeartRate_loop_first_min:
  assumes "k < i" "i \<le> length hrs" "closest = hrs ! k"
    and "minDiff = \<bar>ts - hr_timestamp (hrs ! k)\<bar>"
    and "\<forall>j<i. minDiff \<le> \<bar>ts - hr_timestamp (hrs ! j)\<bar>"
    and "\<forall>j<k. minDiff < \<bar>ts - hr_timestamp (hrs ! j)\<bar>"
  shows "\<exists>m<length hrs.
           findClosestHeartRate_loop hrs ts i closest minDiff
             = (hrs ! m, \<bar>ts - hr_timestamp (hrs ! m)\<bar>)
           \<and> (\<forall>j<length hrs. \<bar>ts - hr_timestamp (hrs ! m)\<bar> \<le> \<bar>ts - hr_timestamp (hrs ! j)\<bar>)
           \<and> (\<forall>j<m. \<bar>ts - hr_timestamp (hrs ! m)\<bar> < \<bar>ts - hr_timestamp (hrs ! j)\<bar>)"
  using assms
proof (induction hrs ts i closest minDiff arbitrary: k rule: findClosestHeartRate_loop.induct)
  case (1 heartRates ts i closest minDiff)
  let ?d = "\<lambda>j. \<bar>ts - hr_timestamp (heartRates ! j)\<bar>"
  show ?case
  proof (cases "i < length heartRates")
    case False
    with "1.prems" have "i = length heartRates" by simp
    with "1.prems" False show ?thesis
      by (intro exI [of _ k]) simp
  next
    case True
    show ?thesis
    proof (cases "?d i < minDiff")
      case less: True
      have step: "findClosestHeartRate_loop heartRates ts i closest minDiff =
          findClosestHeartRate_loop heartRates ts (i + 1) (heartRates ! i) (?d i)"
        using True less by (simp add: Let_def)
      have a: "\<forall>j<i + 1. ?d i \<le> ?d j"
        using "1.prems"(5) less by (auto simp: less_Suc_eq)
      have b: "\<forall>j<i. ?d i < ?d j"
        using "1.prems"(5) less by fastforce
      have "\<exists>m<length heartRates.
           findClosestHeartRate_loop heartRates ts (i + 1) (heartRates ! i) (?d i)
             = (heartRates ! m, ?d m)
           \<and> (\<forall>j<length heartRates. ?d m \<le> ?d j) \<and> (\<forall>j<m. ?d m < ?d j)"
        by (rule "1.IH"(1) [OF True refl less, of i]) (use True a b in auto)
      then show ?thesis unfolding step .
    next
      case geq: False
      have step: "findClosestHeartRate_loop heartRates ts i closest minDiff =
          findClosestHeartRate_loop heartRates ts (i + 1) closest minDiff"
        using True geq by (simp add: Let_def)
      have a: "\<forall>j<i + 1. minDiff \<le> ?d j"
        using "1.prems"(5) geq by (auto simp: less_Suc_eq)
      have "\<exists>m<length heartRates.
           findClosestHeartRate_loop heartRates ts (i + 1) closest minDiff
             = (heartRates ! m, ?d m)
           \<and> (\<forall>j<length heartRates. ?d m \<le> ?d j) \<and> (\<forall>j<m. ?d m < ?d j)"
        by (rule "1.IH"(2) [OF True refl geq, of k]) (use True a "1.prems" in auto)
      then show ?thesis unfolding step .
    qed
  qed
qed

lemma min_diff_eq:
  assumes "m < length hrs"
    and "\<forall>j<length hrs. \<bar>ts - hr_timestamp (hrs ! m)\<bar> \<le> \<bar>ts - hr_timestamp (hrs ! j)\<bar>"
  shows "min_diff hrs ts = \<bar>ts - hr_timestamp (hrs ! m)\<bar>"
  unfolding min_diff_def
proof (rule Min_eqI)
  show "finite ((\<lambda>h. \<bar>ts - hr_timestamp h\<bar>) ` set hrs)" by simp
  show "\<bar>ts - hr_timestamp (hrs ! m)\<bar> \<in> (\<lambda>h. \<bar>ts - hr_timestamp h\<bar>) ` set hrs"
    using assms(1) by auto
  fix y assume "y \<in> (\<lambda>h. \<bar>ts - hr_timestamp h\<bar>) ` set hrs"
  then obtain j where "j < length hrs" "y = \<bar>ts - hr_timestamp (hrs ! j)\<bar>"
    by (auto simp: in_set_conv_nth)
  with assms(2) show "\<bar>ts - hr_timestamp (hrs ! m)\<bar> \<le> y" by simp
qed

lemma findClosestHeartRate_first_min:
  assumes "hrs \<noteq> []"
  shows "\<exists>m<length hrs.
           findClosestHeartRate hrs ts
             = (if min_diff hrs ts \<le> 10000 then Some (heartRate (hrs ! m)) else None)
           \<and> \<bar>ts - hr_timestamp (hrs ! m)\<bar> = min_diff hrs ts
           \<and> (\<forall>j<m. min_diff hrs ts < \<bar>ts - hr_timestamp (hrs ! j)\<bar>)"
proof -
  from assms have len: "0 < length hrs" by simp
  have "\<exists>m<length hrs.
           findClosestHeartRate_loop hrs ts 1 (hrs ! 0) \<bar>ts - hr_timestamp (hrs ! 0)\<bar>
             = (hrs ! m, \<bar>ts - hr_timestamp (hrs ! m)\<bar>)
           \<and> (\<forall>j<length hrs. \<bar>ts - hr_timestamp (hrs ! m)\<bar> \<le> \<bar>ts - hr_timestamp (hrs ! j)\<bar>)
           \<and> (\<forall>j<m. \<bar>ts - hr_timestamp (hrs ! m)\<bar> < \<bar>ts - hr_timestamp (hrs ! j)\<bar>)"
    by (rule findClosestHeartRate_loop_first_min [of 0]) (use len in \<open>auto simp: Suc_le_eq\<close>)
  then obtain m where m: "m < length hrs"
    and run: "findClosestHeartRate_loop hrs ts 1 (hrs ! 0) \<bar>ts - hr_timestamp (hrs ! 0)\<bar>
             = (hrs ! m, \<bar>ts - hr_timestamp (hrs ! m)\<bar>)"
    and least: "\<forall>j<length hrs. \<bar>ts - hr_timestamp (hrs ! m)\<bar> \<le> \<bar>ts - hr_timestamp (hrs ! j)\<bar>"
    and first: "\<forall>j<m. \<bar>ts - hr_timestamp (hrs ! m)\<bar> < \<bar>ts - hr_timestamp (hrs ! j)\<bar>"
    by blast
  have md: "min_diff hrs ts = \<bar>ts - hr_timestamp (hrs ! m)\<bar>"
    by (rule min_diff_eq [OF m least])
  have "findClosestHeartRate hrs ts
      = (if \<bar>ts - hr_timestamp (hrs ! m)\<bar> \<le> 10000 then Some (heartRate (hrs ! m)) else None)"
    using len unfolding findClosestHeartRate_def Let_def run by simp
  then have res: "findClosestHeartRate hrs ts
      = (if min_diff hrs ts \<le> 10000 then Some (heartRate (hrs ! m)) else None)"
    by (simp only: md)
  have first': "\<forall>j<m. min_diff hrs ts < \<bar>ts - hr_timestamp (hrs ! j)\<bar>"
    using first by (simp only: md)
  show ?thesis
    using m res md [symmetric] first' by blast
qed


text \<open>
  C3. \<^verbatim>\<open>findClosestHeartRate\<close> returns nothing exactly when the list is empty or the
  least absolute difference between the target and a sample's timestamp exceeds
  10000 ms; otherwise (the least difference at most 10000 ms, the bound included) it
  returns the rate of the earliest sample that attains the least difference.
\<close>

theorem findClosestHeartRate_closest_within_10s:
  "(findClosestHeartRate hrs ts = None \<longleftrightarrow> hrs = [] \<or> 10000 < min_diff hrs ts)
   \<and> (hrs \<noteq> [] \<and> min_diff hrs ts \<le> 10000 \<longrightarrow>
        (\<exists>m<length hrs.
            findClosestHeartRate hrs ts = Some (heartRate (hrs ! m))
            \<and> \<bar>ts - hr_timestamp (hrs ! m)\<bar> = min_diff hrs ts
            \<and> (\<forall>j<m. min_diff hrs ts < \<bar>ts - hr_timestamp (hrs ! j)\<bar>)))
   \<and> (hrs \<noteq> [] \<and> min_diff hrs ts = 10000 \<longrightarrow> findClosestHeartRate hrs ts \<noteq> None)"
proof (cases "hrs = []")
  case True
  then show ?thesis by (simp add: findClosestHeartRate_def)
next
  case False
  from findClosestHeartRate_first_min [OF False, of ts]
  obtain m where m: "m < length hrs"
    and res: "findClosestHeartRate hrs ts
             = (if min_diff hrs ts \<le> 10000 then Some (heartRate (hrs ! m)) else None)"
    and md: "\<bar>ts - hr_timestamp (hrs ! m)\<bar> = min_diff hrs ts"
    and first: "\<forall>j<m. min_diff hrs ts < \<bar>ts - hr_timestamp (hrs ! j)\<bar>"
    by blast
  have none: "findClosestHeartRate hrs ts = None \<longleftrightarrow> hrs = [] \<or> 10000 < min_diff hrs ts"
    using False res by (simp add: not_le)
  have some: "min_diff hrs ts \<le> 10000 \<Longrightarrow>
      \<exists>m<length hrs.
            findClosestHeartRate hrs ts = Some (heartRate (hrs ! m))
            \<and> \<bar>ts - hr_timestamp (hrs ! m)\<bar> = min_diff hrs ts
            \<and> (\<forall>j<m. min_diff hrs ts < \<bar>ts - hr_timestamp (hrs ! j)\<bar>)"
    using m res md first by (intro exI [of _ m]) simp
  have bound: "min_diff hrs ts = 10000 \<Longrightarrow> findClosestHeartRate hrs ts \<noteq> None"
    using res by simp
  from none some bound show ?thesis by blast
qed

text \<open>
  Two samples at the same distance of exactly 10000 ms from the target: the rate of
  the first one is returned.
\<close>

theorem findClosestHeartRate_closest_within_10s_witness:
  "[\<lparr>hr_timestamp = 0, heartRate = 70\<rparr>, \<lparr>hr_timestamp = 20000, heartRate = 80\<rparr>] \<noteq> []
   \<and> min_diff [\<lparr>hr_timestamp = 0, heartRate = 70\<rparr>, \<lparr>hr_timestamp = 20000, heartRate = 80\<rparr>] 10000
       \<le> 10000
   \<and> findClosestHeartRate
         [\<lparr>hr_timestamp = 0, heartRate = 70\<rparr>, \<lparr>hr_timestamp = 20000, heartRate = 80\<rparr>] 10000
       = Some 70"
proof -
  let ?hrs = "[\<lparr>hr_timestamp = 0, heartRate = 70\<rparr>, \<lparr>hr_timestamp = 20000, heartRate = 80\<rparr>]"
  have ne: "?hrs \<noteq> []" by simp
  have md: "min_diff ?hrs 10000 = 10000" by (simp add: min_diff_def)
  from findClosestHeartRate_closest_within_10s [of ?hrs 10000] ne md
  obtain m where m: "m < length ?hrs"
    and res: "findClosestHeartRate ?hrs 10000 = Some (heartRate (?hrs ! m))"
    and first: "\<forall>j<m. min_diff ?hrs 10000 < \<bar>10000 - hr_timestamp (?hrs ! j)\<bar>"
    by auto
  have "m = 0"
  proof (rule ccontr)
    assume "m \<noteq> 0"
    then have "0 < m" by simp
    with first have "min_diff ?hrs 10000 < \<bar>10000 - hr_timestamp (?hrs ! 0)\<bar>" by blast
    with md show False by simp
  qed
  with res have "findClosestHeartRate ?hrs 10000 = Some 70" by simp
  with ne md show ?thesis by simp
qed

lemma uint_word_cat_bytes:
  "uint (word_cat (hi :: 8 word) (lo :: 8 word) :: 16 word) = 256 * uint hi + uint lo"
proof -
  have hi: "0 \<le> uint hi" "uint hi < 256" and lo: "0 \<le> uint lo" "uint lo < 256"
    using uint_lt2p [of hi] uint_lt2p [of lo] by simp_all
  have "uint (word_cat hi lo :: 16 word) = (uint hi * 256 + uint lo) mod 65536"
    by (simp add: word_cat_eq uint_word_ariths push_bit_eq_mult uint_up_ucast is_up uint_mult_lem take_bit_eq_mod mod_simps)
  also have "\<dots> = uint hi * 256 + uint lo"
    using hi lo by (intro mod_pos_pos_trivial) auto
  finally show ?thesis by simp
qed

lemma flags_bit0: "(uint (w :: 8 word) AND 1 \<noteq> 0) = bit w 0"
proof -
  have "bit w 0 = bit (uint w) 0" by (simp add: bit_uint_iff)
  then show ?thesis by (simp add: and_one_eq bit_0 mod_2_eq_odd)
qed

text \<open>
  C7. On a buffer of at least 2 bytes (3 when bit 0 of the flags byte is set),
  the decoded heart rate is the little-endian unsigned 16-bit integer at offset 1 when
  bit 0 of byte 0 is set, and the unsigned byte at offset 1 when it is clear. Flags
  \<open>0x00\<close> with data byte 72 give 72; flags \<open>0x01\<close> with the bytes of 150 give 150.
\<close>

theorem decodeMeasurement_flags_bit0:
  "(2 \<le> length buf \<and> (bit (buf ! 0) 0 \<longrightarrow> 3 \<le> length buf) \<longrightarrow>
      decodeMeasurement buf =
        Inr (if bit (buf ! 0) 0 then uint (buf ! 1) + 256 * uint (buf ! 2) else uint (buf ! 1)))
   \<and> decodeMeasurement [0x00, 72] = Inr 72
   \<and> decodeMeasurement [0x01, 150, 0] = Inr 150"
proof -
  have general: "decodeMeasurement buf =
        Inr (if bit (buf ! 0) 0 then uint (buf ! 1) + 256 * uint (buf ! 2) else uint (buf ! 1))"
    if "2 \<le> length buf" "bit (buf ! 0) 0 \<longrightarrow> 3 \<le> length buf" for buf
    using that
    by (auto simp add: decodeMeasurement_def getUint8_def getUint16_def flags_bit0
        uint_word_cat_bytes Let_def numeral_2_eq_2 numeral_3_eq_3)
  have a: "decodeMeasurement [0x00, 72] = Inr 72"
    using general [of "[0x00, 72]"] by simp
  have b: "decodeMeasurement [0x01, 150, 0] = Inr 150"
    using general [of "[0x01, 150, 0]"] by simp
  from general [of buf] a b show ?thesis by blast
qed

theorem decodeMeasurement_flags_bit0_witness:
  "2 \<le> length [0x11, 0x2C, 0x01, 0xFF :: 8 word]
   \<and> bit ([0x11, 0x2C, 0x01, 0xFF :: 8 word] ! 0) 0
   \<and> 3 \<le> length [0x11, 0x2C, 0x01, 0xFF :: 8 word]
   \<and> decodeMeasurement [0x11, 0x2C, 0x01, 0xFF] = Inr 300"
  using decodeMeasurement_flags_bit0 [of "[0x11, 0x2C, 0x01, 0xFF]"] by simp

section \<open>Formatting: properties\<close>

declare nat_toString.simps [simp del]

lemma digit_char_0: "digit_char 0 = CHR ''0''"
  by (simp add: digit_char_def)

lemma nat_toString_digit: "n < 10 \<Longrightarrow> nat_toString n = [digit_char n]"
  by (simp add: nat_toString.simps)

lemma nat_toString_two_digits:
  "10 \<le> n \<Longrightarrow> n < 100 \<Longrightarrow> nat_toString n = [digit_char (n div 10), digit_char (n mod 10)]"
  by (subst nat_toString.simps) (simp add: nat_toString_digit)

lemma padStart_two_digits:
  assumes "n < 100"
  shows "padStart 2 CHR ''0'' (nat_toString n) = [digit_char (n div 10), digit_char (n mod 10)]"
proof (cases "n < 10")
  case True
  then show ?thesis
    by (simp add: padStart_def nat_toString_digit digit_char_0)
next
  case False
  with assms show ?thesis
    by (simp add: padStart_def nat_toString_two_digits)
qed

lemma foldl_add_sum_list:
  "foldl (\<lambda>acc x. acc + f x) a xs = a + sum_list (map f xs)" for a :: "'a :: monoid_add"
  by (induction xs arbitrary: a) (simp_all add: add.assoc)

section \<open>The tracker component: properties\<close>

lemma digit_value_digit_char: "d < 10 \<Longrightarrow> digit_value (digit_char d) = d"
proof -
  assume "d < 10"
  then consider "d = 0" | "d = 1" | "d = 2" | "d = 3" | "d = 4" | "d = 5" | "d = 6" | "d = 7"
    | "d = 8" | "d = 9"
    by (fastforce simp: numeral_eq_Suc less_Suc_eq)
  then show ?thesis
    by cases (simp_all add: digit_value_def digit_char_def)
qed

lemma decimal_value_nat_toString: "decimal_value (nat_toString n) = n"
proof (induction n rule: nat_toString.induct)
  case (1 n)
  show ?case
  proof (cases "n < 10")
    case True
    then show ?thesis
      by (simp add: nat_toString_digit decimal_value_def digit_value_digit_char)
  next
    case False
    then have "nat_toString n = nat_toString (n div 10) @ [digit_char (n mod 10)]"
      by (subst nat_toString.simps) simp
    moreover have "decimal_value (nat_toString (n div 10)) = n div 10"
      using "1.IH" False by simp
    ultimately show ?thesis
      by (simp add: decimal_value_def digit_value_digit_char)
  qed
qed

lemma formatTime_clock:
  "formatTime t =
     (if t < 3600 then nat_toString (t div 60) @ '':'' @ two_digits (t mod 60)
      else nat_toString (t div 3600) @ '':'' @ two_digits (t mod 3600 div 60)
           @ '':'' @ two_digits (t mod 60))"
proof -
  have s: "padStart 2 CHR ''0'' (nat_toString (t mod 60)) = two_digits (t mod 60)"
    unfolding two_digits_def by (rule padStart_two_digits) simp
  have m: "padStart 2 CHR ''0'' (nat_toString (t mod 3600 div 60)) = two_digits (t mod 3600 div 60)"
    unfolding two_digits_def by (rule padStart_two_digits) simp
  have small: "t < 3600 \<Longrightarrow> t mod 3600 div 60 = t div 60" by simp
  show ?thesis
    unfolding formatTime_def Let_def s m
    by (auto simp: small)
qed

text \<open>
  C6. \<^verbatim>\<open>recordLap\<close> does nothing unless the recorder is running. Otherwise it appends
  exactly one lap: its number is the previous number of laps plus 1, its time, distance
  and pace are the current ones, and its average heart rate is the rounded mean of all
  heart-rate samples collected so far, absent when there is none. Numbers that were
  \<open>1, 2, \<dots>\<close> stay so, hence strictly increasing. The time of the lap is the
  elapsed-seconds counter as a clock text: minutes and two-digit seconds below one hour,
  hours, two-digit minutes and two-digit seconds from one hour on, in decimal digits.
\<close>

theorem recordLap_appends_snapshot:
  "(\<not> isRunning s \<longrightarrow> recordLap s = s)
   \<and> (isRunning s \<longrightarrow>
        recordLap s =
          s\<lparr>laps := laps s
               @ [\<lparr>lap_number = length (laps s) + 1,
                   lap_time = formatTime (time s),
                   lap_distance = distance s,
                   lap_pace = currentPace s,
                   avgHeartRate =
                     (if heartRateData s = [] then None
                      else Some (round (real_of_int (sum_list (map heartRate (heartRateData s)))
                                        / real (length (heartRateData s)))))\<rparr>]\<rparr>)
   \<and> (isRunning s \<and> map lap_number (laps s) = [1..<length (laps s) + 1] \<longrightarrow>
        map lap_number (laps (recordLap s)) = [1..<length (laps (recordLap s)) + 1]
        \<and> sorted_wrt (<) (map lap_number (laps (recordLap s))))
   \<and> formatTime (time s) =
       (if time s < 3600
        then nat_toString (time s div 60) @ '':'' @ two_digits (time s mod 60)
        else nat_toString (time s div 3600) @ '':'' @ two_digits (time s mod 3600 div 60)
             @ '':'' @ two_digits (time s mod 60))
   \<and> decimal_value (nat_toString n) = n"
proof -
  have stopped: "\<not> isRunning s \<Longrightarrow> recordLap s = s"
    by (simp add: recordLap_def)
  have running: "recordLap s =
          s\<lparr>laps := laps s
               @ [\<lparr>lap_number = length (laps s) + 1,
                   lap_time = formatTime (time s),
                   lap_distance = distance s,
                   lap_pace = currentPace s,
                   avgHeartRate =
                     (if heartRateData s = [] then None
                      else Some (round (real_of_int (sum_list (map heartRate (heartRateData s)))
                                        / real (length (heartRateData s)))))\<rparr>]\<rparr>"
    if "isRunning s"
    using that
    by (simp add: recordLap_def Let_def Math_round_def round_def foldl_add_sum_list)
  have numbers: "map lap_number (laps (recordLap s)) = [1..<length (laps (recordLap s)) + 1]"
    if "isRunning s" "map lap_number (laps s) = [1..<length (laps s) + 1]"
    using that by (simp add: running)
  have "sorted_wrt (<) [1..<length (laps (recordLap s)) + 1]"
    by (simp only: sorted_wrt_upt)
  with stopped running numbers formatTime_clock [of "time s"] decimal_value_nat_toString [of n]
  show ?thesis by metis
qed

theorem recordLap_appends_snapshot_witness:
  "isRunning (initial\<lparr>isRunning := True, time := 20, distance := 1 / 10, currentPace := ''3:20'',
       heartRateData := [\<lparr>hr_timestamp = 0, heartRate = 150\<rparr>, \<lparr>hr_timestamp = 1000, heartRate = 151\<rparr>]\<rparr>)
   \<and> map lap_number (laps (initial\<lparr>isRunning := True, time := 20, distance := 1 / 10,
       currentPace := ''3:20'',
       heartRateData := [\<lparr>hr_timestamp = 0, heartRate = 150\<rparr>, \<lparr>hr_timestamp = 1000, heartRate = 151\<rparr>]\<rparr>))
     = [1..<length (laps (initial\<lparr>isRunning := True, time := 20, distance := 1 / 10,
       currentPace := ''3:20'',
       heartRateData := [\<lparr>hr_timestamp = 0, heartRate = 150\<rparr>, \<lparr>hr_timestamp = 1000, heartRate = 151\<rparr>]\<rparr>)) + 1]
   \<and> laps (recordLap (initial\<lparr>isRunning := True, time := 20, distance := 1 / 10,
       currentPace := ''3:20'',
       heartRateData := [\<lparr>hr_timestamp = 0, heartRate = 150\<rparr>, \<lparr>hr_timestamp = 1000, heartRate = 151\<rparr>]\<rparr>))
     = [\<lparr>lap_number = 1, lap_time = ''0:20'', lap_distance = 1 / 10, lap_pace = ''3:20'',
         avgHeartRate = Some 151\<rparr>]
   \<and> formatTime (time (initial\<lparr>time := 3725\<rparr>)) = ''1:02:05''
   \<and> formatTime (time (initial\<lparr>time := 754\<rparr>)) = ''12:34''"
proof -
  let ?s = "initial\<lparr>isRunning := True, time := 20, distance := 1 / 10, currentPace := ''3:20'',
       heartRateData := [\<lparr>hr_timestamp = 0, heartRate = 150\<rparr>, \<lparr>hr_timestamp = 1000, heartRate = 151\<rparr>]\<rparr>"
  have run: "isRunning ?s" by simp
  have nums: "map lap_number (laps ?s) = [1..<length (laps ?s) + 1]"
    by (simp add: initial_def)
  have t: "formatTime 20 = ''0:20''"
    by (simp add: formatTime_def padStart_def nat_toString_digit nat_toString_two_digits
        digit_char_def)
  have r: "round (301 / 2 :: real) = 151"
    by (simp add: round_def)
  from recordLap_appends_snapshot [of ?s] run
  have "laps (recordLap ?s) = [\<lparr>lap_number = 1, lap_time = ''0:20'', lap_distance = 1 / 10,
      lap_pace = ''3:20'', avgHeartRate = Some 151\<rparr>]"
    by (simp add: initial_def t r)
  moreover from recordLap_appends_snapshot [of "initial\<lparr>time := 3725\<rparr>"]
  have "formatTime (time (initial\<lparr>time := 3725\<rparr>)) = ''1:02:05''"
    by (simp add: nat_toString_digit two_digits_def digit_char_def)
  moreover from recordLap_appends_snapshot [of "initial\<lparr>time := 754\<rparr>"]
  have "formatTime (time (initial\<lparr>time := 754\<rparr>)) = ''12:34''"
    by (simp add: nat_toString_two_digits two_digits_def digit_char_def)
  ultimately show ?thesis using run nums by blast
qed

lemma clearInterval_fields [simp]:
  "isRunning (clearInterval v s) = isRunning s"
  "time (clearInterval v s) = time s"
  "distance (clearInterval v s) = distance s"
  "currentPace (clearInterval v s) = currentPace s"
  "positions (clearInterval v s) = positions s"
  "laps (clearInterval v s) = laps s"
  "heartRateData (clearInterval v s) = heartRateData s"
  "activity (clearInterval v s) = activity s"
  "activityCompleted (clearInterval v s) = activityCompleted s"
  "timerRef (clearInterval v s) = timerRef s"
  "startTimeRef (clearInterval v s) = startTimeRef s"
  "watchId (clearInterval v s) = watchId s"
  "geoWatches (clearInterval v s) = geoWatches s"
  "recentPacesRef (clearInterval v s) = recentPacesRef s"
  "lastPositionsRef (clearInterval v s) = lastPositionsRef s"
  by (simp_all add: clearInterval_def split: option.split)

lemma clearWatch_fields [simp]:
  "isRunning (clearWatch v s) = isRunning s"
  "time (clearWatch v s) = time s"
  "distance (clearWatch v s) = distance s"
  "currentPace (clearWatch v s) = currentPace s"
  "positions (clearWatch v s) = positions s"
  "laps (clearWatch v s) = laps s"
  "heartRateData (clearWatch v s) = heartRateData s"
  "activity (clearWatch v s) = activity s"
  "activityCompleted (clearWatch v s) = activityCompleted s"
  "timerRef (clearWatch v s) = timerRef s"
  "startTimeRef (clearWatch v s) = startTimeRef s"
  "watchId (clearWatch v s) = watchId s"
  "recentPacesRef (clearWatch v s) = recentPacesRef s"
  "lastPositionsRef (clearWatch v s) = lastPositionsRef s"
  by (simp_all add: clearWatch_def split: option.split)

lemma geoWatches_clearWatch:
  "geoWatches (clearWatch v s) = (case v of None \<Rightarrow> geoWatches s | Some n \<Rightarrow> geoWatches s - {n})"
  by (simp add: clearWatch_def split: option.split)

lemma gpsCleanup_fields [simp]:
  "isRunning (gpsCleanup v s) = isRunning s"
  "time (gpsCleanup v s) = time s"
  "distance (gpsCleanup v s) = distance s"
  "currentPace (gpsCleanup v s) = currentPace s"
  "positions (gpsCleanup v s) = positions s"
  "laps (gpsCleanup v s) = laps s"
  "heartRateData (gpsCleanup v s) = heartRateData s"
  "activity (gpsCleanup v s) = activity s"
  "activityCompleted (gpsCleanup v s) = activityCompleted s"
  "timerRef (gpsCleanup v s) = timerRef s"
  "startTimeRef (gpsCleanup v s) = startTimeRef s"
  "watchId (gpsCleanup v s) = watchId s"
  "recentPacesRef (gpsCleanup v s) = recentPacesRef s"
  "lastPositionsRef (gpsCleanup v s) = lastPositionsRef s"
  by (simp_all add: gpsCleanup_def)

lemma timerCleanup_fields [simp]:
  "isRunning (timerCleanup s) = isRunning s"
  "time (timerCleanup s) = time s"
  "distance (timerCleanup s) = distance s"
  "currentPace (timerCleanup s) = currentPace s"
  "positions (timerCleanup s) = positions s"
  "laps (timerCleanup s) = laps s"
  "heartRateData (timerCleanup s) = heartRateData s"
  "activity (timerCleanup s) = activity s"
  "activityCompleted (timerCleanup s) = activityCompleted s"
  "timerRef (timerCleanup s) = timerRef s"
  "startTimeRef (timerCleanup s) = startTimeRef s"
  "watchId (timerCleanup s) = watchId s"
  "geoWatches (timerCleanup s) = geoWatches s"
  "recentPacesRef (timerCleanup s) = recentPacesRef s"
  "lastPositionsRef (timerCleanup s) = lastPositionsRef s"
  by (simp_all add: timerCleanup_def)

lemma gpsEffect_fields [simp]:
  "isRunning (gpsEffect b wid s) = isRunning s"
  "time (gpsEffect b wid s) = time s"
  "distance (gpsEffect b wid s) = distance s"
  "currentPace (gpsEffect b wid s) = currentPace s"
  "positions (gpsEffect b wid s) = positions s"
  "laps (gpsEffect b wid s) = laps s"
  "heartRateData (gpsEffect b wid s) = heartRateData s"
  "activity (gpsEffect b wid s) = activity s"
  "activityCompleted (gpsEffect b wid s) = activityCompleted s"
  "recentPacesRef (gpsEffect b wid s) = recentPacesRef s"
  "lastPositionsRef (gpsEffect b wid s) = lastPositionsRef s"
  by (simp_all add: gpsEffect_def)

lemma timerEffect_stopped:
  assumes "\<not> isRunning s" "truthy (timerRef s)"
  shows "time (timerEffect now tid s) = time s"
    and "distance (timerEffect now tid s) = distance s"
    and "currentPace (timerEffect now tid s) = currentPace s"
    and "positions (timerEffect now tid s) = positions s"
    and "laps (timerEffect now tid s) = laps s"
    and "heartRateData (timerEffect now tid s) = heartRateData s"
    and "isRunning (timerEffect now tid s) = isRunning s"
    and "watchId (timerEffect now tid s) = watchId s"
    and "geoWatches (timerEffect now tid s) = geoWatches s"
    and "recentPacesRef (timerEffect now tid s) = recentPacesRef s"
    and "lastPositionsRef (timerEffect now tid s) = lastPositionsRef s"
    and "0 < time s \<and> positions s \<noteq> [] \<Longrightarrow>
         activityCompleted (timerEffect now tid s)
         \<and> activity (timerEffect now tid s) = Some
              \<lparr>startTime =
                 (case startTimeRef s of
                    None \<Rightarrow> now - real (time s) * 1000
                  | Some st \<Rightarrow> if st \<noteq> 0 then st else now - real (time s) * 1000),
               endTime = now, totalTime = time s, totalDistance = distance s,
               act_positions = positions s, act_heartRates = heartRateData s,
               act_laps = laps s\<rparr>"
    and "\<not> (0 < time s \<and> positions s \<noteq> []) \<Longrightarrow>
         activity (timerEffect now tid s) = activity s
         \<and> activityCompleted (timerEffect now tid s) = activityCompleted s"
  using assms by (auto simp: timerEffect_def Let_def split: option.splits)

lemma timerEffect_stopped_no_timer:
  "\<not> isRunning s \<Longrightarrow> \<not> truthy (timerRef s) \<Longrightarrow> timerEffect now tid s = s"
  by (simp add: timerEffect_def)

text \<open>
  While the recorder runs, \<^verbatim>\<open>timerRef\<close> holds the identifier of the interval timer
  (identifiers of timers are positive), and the geolocation effect keeps the active
  watch, if any, recorded in \<^verbatim>\<open>watchId\<close>.
\<close>

lemma timerEffect_running_timerRef:
  "isRunning s \<Longrightarrow> 0 < tid \<Longrightarrow> truthy (timerRef (timerEffect now tid s))"
  by (simp add: timerEffect_def Let_def truthy_def)

lemma gpsEffect_watch_recorded:
  assumes "\<forall>w\<in>geoWatches s. watchId s = Some w \<and> w \<noteq> 0" "0 < wid"
  shows "\<forall>w\<in>geoWatches (gpsEffect supported wid s).
           watchId (gpsEffect supported wid s) = Some w \<and> w \<noteq> 0"
proof (cases "truthy (watchId s)")
  case True
  then obtain w where w: "watchId s = Some w"
    by (auto simp: truthy_def split: option.splits)
  with assms(1) have "geoWatches s \<subseteq> {w}" by auto
  with True w assms show ?thesis
    by (auto simp: gpsEffect_def geoWatches_clearWatch)
next
  case False
  with assms(1) have "geoWatches s = {}"
    by (auto simp: truthy_def split: option.splits)
  with False assms(2) show ?thesis
    by (auto simp: gpsEffect_def)
qed

text \<open>
  C1. When recording stops (\<^verbatim>\<open>startStop\<close> on a running recorder, then the effects of the
  next render), an Activity is produced if and only if the elapsed-seconds counter is
  positive and there is at least one fix. The Activity carries the counter as
  \<open>totalTime\<close>, the accumulated distance as \<open>totalDistance\<close>, and the fix, heart-rate
  and lap sequences. When the condition fails the Activity slot keeps its content: none
  is produced, and a recorder without an Activity ends without one.
\<close>

theorem stop_produces_activity:
  assumes "isRunning s" and "truthy (timerRef s)"
  shows "\<not> isRunning (runEffects now tid wid s (startStop s))
    \<and> (0 < time s \<and> positions s \<noteq> [] \<longrightarrow>
         activityCompleted (runEffects now tid wid s (startStop s))
         \<and> (\<exists>st. activity (runEffects now tid wid s (startStop s)) = Some
               \<lparr>startTime = st, endTime = now, totalTime = time s,
                totalDistance = distance s, act_positions = positions s,
                act_heartRates = heartRateData s, act_laps = laps s\<rparr>))
    \<and> (\<not> (0 < time s \<and> positions s \<noteq> []) \<longrightarrow>
         activity (runEffects now tid wid s (startStop s)) = activity s
         \<and> activityCompleted (runEffects now tid wid s (startStop s)) = activityCompleted s)
    \<and> (\<not> (0 < time s \<and> positions s \<noteq> []) \<and> activity s = None \<longrightarrow>
         activity (runEffects now tid wid s (startStop s)) = None)"
proof -
  let ?m = "gpsCleanup (watchId s) (timerCleanup (startStop s))"
  have st: "\<not> isRunning ?m" "truthy (timerRef ?m)"
    using assms by (simp_all add: startStop_def)
  have r: "runEffects now tid wid s (startStop s) = gpsEffect True wid (timerEffect now tid ?m)"
    by (simp add: runEffects_def)
  have run: "\<not> isRunning (runEffects now tid wid s (startStop s))"
    unfolding r using timerEffect_stopped(7) [OF st] st(1) by simp
  have yes: "activityCompleted (runEffects now tid wid s (startStop s))
         \<and> (\<exists>st. activity (runEffects now tid wid s (startStop s)) = Some
               \<lparr>startTime = st, endTime = now, totalTime = time s,
                totalDistance = distance s, act_positions = positions s,
                act_heartRates = heartRateData s, act_laps = laps s\<rparr>)"
    if "0 < time s \<and> positions s \<noteq> []"
    unfolding r using timerEffect_stopped(12) [OF st, of now tid] that
    by (simp add: startStop_def)
  have no: "activity (runEffects now tid wid s (startStop s)) = activity s
         \<and> activityCompleted (runEffects now tid wid s (startStop s)) = activityCompleted s"
    if "\<not> (0 < time s \<and> positions s \<noteq> [])"
    unfolding r using timerEffect_stopped(13) [OF st, of now tid] that
    by (simp add: startStop_def)
  from run yes no show ?thesis by presburger
qed

theorem stop_produces_activity_witness:
  "isRunning running_20s \<and> truthy (timerRef running_20s)
   \<and> 0 < time running_20s \<and> positions running_20s \<noteq> []
   \<and> map_option totalTime
         (activity (runEffects 1700000020500 8 2 running_20s (startStop running_20s)))
       = Some 20
   \<and> map_option (length \<circ> act_positions)
         (activity (runEffects 1700000020500 8 2 running_20s (startStop running_20s)))
       = Some 3
   \<and> map_option (length \<circ> act_laps)
         (activity (runEffects 1700000020500 8 2 running_20s (startStop running_20s)))
       = Some 1
   \<and> isRunning running_0s \<and> truthy (timerRef running_0s)
   \<and> time running_0s = 0 \<and> activity running_0s = None
   \<and> activity (runEffects 1700000000500 8 2 running_0s (startStop running_0s)) = None"
proof -
  have a: "isRunning running_20s" "truthy (timerRef running_20s)"
    "0 < time running_20s \<and> positions running_20s \<noteq> []"
    by (simp_all add: running_20s_def initial_def truthy_def)
  have b: "isRunning running_0s" "truthy (timerRef running_0s)"
    "\<not> (0 < time running_0s \<and> positions running_0s \<noteq> [])" "activity running_0s = None"
    by (simp_all add: running_0s_def initial_def truthy_def)
  from stop_produces_activity [OF a(1,2), of 1700000020500 8 2] a(3)
  obtain st where "activity (runEffects 1700000020500 8 2 running_20s (startStop running_20s))
      = Some \<lparr>startTime = st, endTime = 1700000020500, totalTime = time running_20s,
          totalDistance = distance running_20s, act_positions = positions running_20s,
          act_heartRates = heartRateData running_20s, act_laps = laps running_20s\<rparr>"
    by blast
  then have c: "map_option totalTime
         (activity (runEffects 1700000020500 8 2 running_20s (startStop running_20s))) = Some 20"
    "map_option (length \<circ> act_positions)
         (activity (runEffects 1700000020500 8 2 running_20s (startStop running_20s))) = Some 3"
    "map_option (length \<circ> act_laps)
         (activity (runEffects 1700000020500 8 2 running_20s (startStop running_20s))) = Some 1"
    by (simp_all add: running_20s_def initial_def)
  from stop_produces_activity [OF b(1,2), of 1700000000500 8 2] b(3,4)
  have d: "activity (runEffects 1700000000500 8 2 running_0s (startStop running_0s)) = None"
    by blast
  have e: "time running_0s = 0"
    by (simp add: running_0s_def initial_def)
  from a b(1,2,4) c d e show ?thesis by blast
qed

text \<open>
  C8. After \<^verbatim>\<open>reset\<close>, and after the effects of the render that follows it (the
  timer effect alone, or both effects), the fix,
  lap and heart-rate sequences are empty, the elapsed-seconds counter and the distance
  are 0, the pace string is \<open>0:00\<close>, the pace history is empty, there is no Activity,
  and no geolocation watch is active. The state before is any state in which the active
  watch, if there is one, is the one whose identifier \<^verbatim>\<open>watchId\<close> holds (identifiers
  of watches are positive).
\<close>

theorem reset_clears_everything:
  assumes "\<forall>w\<in>geoWatches s. watchId s = Some w \<and> w \<noteq> 0"
    and "s' = reset s \<or> s' = timerEffect now tid (timerCleanup (reset s))
         \<or> s' = runEffects now tid wid s (reset s)"
  shows "positions s' = [] \<and> laps s' = [] \<and> heartRateData s' = []
    \<and> time s' = 0 \<and> distance s' = 0 \<and> currentPace s' = ''0:00''
    \<and> recentPacesRef s' = [] \<and> lastPositionsRef s' = []
    \<and> activity s' = None \<and> \<not> activityCompleted s'
    \<and> \<not> isRunning s' \<and> geoWatches s' = {}"
proof -
  let ?r = "reset s"
  have fields: "positions ?r = [] \<and> laps ?r = [] \<and> heartRateData ?r = []
    \<and> time ?r = 0 \<and> distance ?r = 0 \<and> currentPace ?r = ''0:00''
    \<and> recentPacesRef ?r = [] \<and> lastPositionsRef ?r = []
    \<and> activity ?r = None \<and> \<not> activityCompleted ?r \<and> \<not> isRunning ?r"
    by (simp add: reset_def Let_def)
  have watches: "geoWatches ?r = {}"
  proof (cases "truthy (watchId s)")
    case True
    then obtain w where w: "watchId s = Some w"
      by (auto simp: truthy_def split: option.splits)
    with assms(1) have "geoWatches s \<subseteq> {w}" by auto
    with True w show ?thesis
      by (auto simp: reset_def Let_def geoWatches_clearWatch)
  next
    case False
    with assms(1) have "geoWatches s = {}"
      by (auto simp: truthy_def split: option.splits)
    with False show ?thesis by (simp add: reset_def Let_def)
  qed
  have te: "positions (timerEffect now tid m) = [] \<and> laps (timerEffect now tid m) = []
    \<and> heartRateData (timerEffect now tid m) = []
    \<and> time (timerEffect now tid m) = 0 \<and> distance (timerEffect now tid m) = 0
    \<and> currentPace (timerEffect now tid m) = ''0:00''
    \<and> recentPacesRef (timerEffect now tid m) = [] \<and> lastPositionsRef (timerEffect now tid m) = []
    \<and> activity (timerEffect now tid m) = None \<and> \<not> activityCompleted (timerEffect now tid m)
    \<and> \<not> isRunning (timerEffect now tid m) \<and> geoWatches (timerEffect now tid m) = {}"
    if m: "m = timerCleanup ?r \<or> m = gpsCleanup (watchId s) (timerCleanup ?r)" for m
  proof -
    from m fields have mf: "positions m = [] \<and> laps m = [] \<and> heartRateData m = []
      \<and> time m = 0 \<and> distance m = 0 \<and> currentPace m = ''0:00''
      \<and> recentPacesRef m = [] \<and> lastPositionsRef m = []
      \<and> activity m = None \<and> \<not> activityCompleted m \<and> \<not> isRunning m"
      by auto
    have "geoWatches (gpsCleanup (watchId s) (timerCleanup ?r)) = {}"
      using watches by (simp add: gpsCleanup_def geoWatches_clearWatch split: option.splits)
    with m watches have mw: "geoWatches m = {}"
      by auto
    show ?thesis
    proof (cases "truthy (timerRef m)")
      case True
      have "\<not> (0 < time m \<and> positions m \<noteq> [])" "\<not> isRunning m" using mf by simp_all
      from timerEffect_stopped [OF this(2) True, of now tid] this(1) mf mw
      show ?thesis by simp
    next
      case False
      have "\<not> isRunning m" using mf by simp
      from timerEffect_stopped_no_timer [OF this False, of now tid] mf mw
      show ?thesis by simp
    qed
  qed
  let ?m = "gpsCleanup (watchId s) (timerCleanup ?r)"
  have ge: "geoWatches (gpsEffect True wid (timerEffect now tid ?m)) = {}"
    using te [of ?m] by (simp add: gpsEffect_def geoWatches_clearWatch split: option.splits)
  have eff: "runEffects now tid wid s ?r = gpsEffect True wid (timerEffect now tid ?m)"
    by (simp add: runEffects_def)
  from assms(2) consider "s' = reset s" | "s' = timerEffect now tid (timerCleanup (reset s))"
    | "s' = runEffects now tid wid s (reset s)"
    by blast
  then show ?thesis
  proof cases
    case 1
    with fields watches show ?thesis by simp
  next
    case 2
    with te [of "timerCleanup ?r"] show ?thesis by simp
  next
    case 3
    with eff te [of ?m] ge show ?thesis by simp
  qed
qed

theorem reset_clears_everything_witness:
  "geoWatches running_20s = {1} \<and> watchId running_20s = Some 1
   \<and> positions running_20s \<noteq> [] \<and> laps running_20s \<noteq> [] \<and> heartRateData running_20s \<noteq> []
   \<and> geoWatches running_20s \<noteq> {}
   \<and> positions (reset running_20s) = [] \<and> laps (reset running_20s) = []
   \<and> heartRateData (reset running_20s) = [] \<and> time (reset running_20s) = 0
   \<and> distance (reset running_20s) = 0 \<and> currentPace (reset running_20s) = ''0:00''
   \<and> recentPacesRef (reset running_20s) = [] \<and> activity (reset running_20s) = None
   \<and> geoWatches (reset running_20s) = {}
   \<and> geoWatches (runEffects 1700000020500 8 2 running_20s (reset running_20s)) = {}
   \<and> activity (runEffects 1700000020500 8 2 running_20s (reset running_20s)) = None"
proof -
  have h: "\<forall>w\<in>geoWatches running_20s. watchId running_20s = Some w \<and> w \<noteq> 0"
    by (simp add: running_20s_def initial_def)
  have before: "positions running_20s \<noteq> [] \<and> laps running_20s \<noteq> []
      \<and> heartRateData running_20s \<noteq> [] \<and> geoWatches running_20s \<noteq> {}"
    by (simp add: running_20s_def initial_def)
  have w: "geoWatches running_20s = {1} \<and> watchId running_20s = Some 1"
    by (simp add: running_20s_def initial_def)
  from reset_clears_everything [OF h, of "reset running_20s" 0 0 0]
    reset_clears_everything [OF h,
      of "runEffects 1700000020500 8 2 running_20s (reset running_20s)" 1700000020500 8 2]
    w before
  show ?thesis by simp
qed

section \<open>The pace estimator: properties\<close>



lemma getRecentPositions_window60:
  "fixes \<noteq> [] \<Longrightarrow> getRecentPositions fixes 60 = window60 fixes"
proof (cases "length fixes \<le> 1")
  case True
  assume "fixes \<noteq> []"
  with True obtain p where "fixes = [p]"
    by (cases "fixes") auto
  then show ?thesis
    by (simp add: getRecentPositions_def window60_def)
next
  case False
  assume "fixes \<noteq> []"
  then have "fixes ! (length fixes - 1) = last fixes"
    by (simp add: last_conv_nth)
  with False show ?thesis
    by (simp add: getRecentPositions_def window60_def Let_def)
qed


lemma updatePace_throttled:
  "now - lastPaceUpdateRef s \<le> 5000 \<Longrightarrow> updatePace now s = s"
  by (simp add: updatePace_def)

lemma updatePace_passes:
  assumes "5000 < now - lastPaceUpdateRef s" "lastPositionsRef s \<noteq> []"
  shows "updatePace now s =
     (let w = window60 (lastPositionsRef s)
      in if 2 \<le> length w \<and> 0 < timeInMinutes w \<and> 0 < calculateTotalDistance w then
           (let pushed = recentPacesRef s @ [timeInMinutes w / calculateTotalDistance w];
                kept = (if length pushed > 3 then tl pushed else pushed)
            in s\<lparr>lastPaceUpdateRef := now, recentPacesRef := kept,
                 currentPace := formatPace (mean kept)\<rparr>)
         else s\<lparr>lastPaceUpdateRef := now\<rparr>)"
  using assms
  by (simp add: updatePace_def Let_def getRecentPositions_window60 mean_def
      foldl_add_sum_list [where f = "\<lambda>x. x", simplified])

lemma updatePace_window_invalid:
  assumes "5000 < now - lastPaceUpdateRef s" "lastPositionsRef s \<noteq> []"
    and "\<not> (2 \<le> length (window60 (lastPositionsRef s))
           \<and> 0 < timeInMinutes (window60 (lastPositionsRef s))
           \<and> 0 < calculateTotalDistance (window60 (lastPositionsRef s)))"
  shows "updatePace now s = s\<lparr>lastPaceUpdateRef := now\<rparr>"
  unfolding updatePace_passes [OF assms(1,2)] Let_def
  by (simp only: if_not_P [OF assms(3)])



lemma onPosition_skips:
  assumes "\<not> computesPace t now position s"
  shows "recentPacesRef (onPosition t now position s) = recentPacesRef s"
    and "currentPace (onPosition t now position s) = currentPace s"
proof -
  let ?fixes = "positions s @ [newPosition position]"
  let ?s2 = "s\<lparr>positions := ?fixes, lastPositionsRef := ?fixes,
               distance := calculateTotalDistance ?fixes\<rparr>"
  have up: "recentPacesRef (updatePace now ?s2) = recentPacesRef s
      \<and> currentPace (updatePace now ?s2) = currentPace s"
    if "0 < t" "0 < calculateTotalDistance ?fixes"
  proof (cases "5000 < now - lastPaceUpdateRef s")
    case False
    then show ?thesis by (simp add: updatePace_throttled)
  next
    case True
    with that assms
    have "\<not> (2 \<le> length (window60 ?fixes) \<and> 0 < timeInMinutes (window60 ?fixes)
        \<and> 0 < calculateTotalDistance (window60 ?fixes))"
      by (simp add: computesPace_def Let_def)
    then have "\<not> (2 \<le> length (window60 (lastPositionsRef ?s2))
           \<and> 0 < timeInMinutes (window60 (lastPositionsRef ?s2))
           \<and> 0 < calculateTotalDistance (window60 (lastPositionsRef ?s2)))"
      by simp
    moreover have "5000 < now - lastPaceUpdateRef ?s2" "lastPositionsRef ?s2 \<noteq> []"
      using True by simp_all
    ultimately have "updatePace now ?s2 = ?s2\<lparr>lastPaceUpdateRef := now\<rparr>"
      by (intro updatePace_window_invalid)
    then show ?thesis by simp
  qed
  show "recentPacesRef (onPosition t now position s) = recentPacesRef s"
    using up by (simp add: onPosition_def Let_def)
  show "currentPace (onPosition t now position s) = currentPace s"
    using up by (simp add: onPosition_def Let_def)
qed








subsection \<open>The example stream\<close>

lemma timestamp_geo_km [simp]: "timestamp (newPosition (geo_km a ts)) = ts"
  by (simp add: newPosition_def geo_km_def)













section \<open>GPX export: properties\<close>

lemma Date_toISOString_valid:
  "valid_date t \<Longrightarrow> Date_toISOString isoText t = Inr (isoText (trunc t))"
  by (simp add: Date_toISOString_def valid_date_def)

lemma Date_toISOString_invalid:
  "\<not> valid_date t \<Longrightarrow> Date_toISOString isoText t = Inl RangeError"
  by (simp add: Date_toISOString_def valid_date_def)

lemma appendTrackPoint_code_trkpt:
  assumes "valid_date (timestamp pos)"
  shows "appendTrackPoint isoText str act pos gpx =
     Inr (gpx @ code_trkpt isoText str (act_heartRates act) pos)"
proof -
  have ext: "(if truthy_number v then g @ extensions_block (the v) else g)
      = g @ (case v of None \<Rightarrow> [] | Some hr \<Rightarrow> if hr = 0 then [] else extensions_block hr)"
    for v g
    by (cases v) (simp_all add: truthy_number_def)
  have ele: "(if a \<noteq> None then g @ ele_element str (the a) else g)
      = g @ (case a of None \<Rightarrow> [] | Some alt \<Rightarrow> ele_element str alt)"
    for a g
    by (cases a) simp_all
  show ?thesis
    unfolding appendTrackPoint_def Date_toISOString_valid [OF assms] code_trkpt_def Let_def ext ele
    by simp
qed

lemma forEach_position_code_trkpt:
  "\<forall>pos\<in>set ps. valid_date (timestamp pos) \<Longrightarrow>
   forEach_position isoText str act ps gpx =
     Inr (gpx @ concat (map (code_trkpt isoText str (act_heartRates act)) ps))"
  by (induction ps arbitrary: gpx) (simp_all add: appendTrackPoint_code_trkpt)

text \<open>
  The document that \<^verbatim>\<open>generateGPX\<close> returns when the start time and the timestamps
  of the fixes are valid dates: the header, one track point per fix in recorded order,
  the footer. Each track point has \<^verbatim>\<open><ele>\<close> exactly when the altitude is present,
  then \<^verbatim>\<open><time>\<close>, then the extensions block exactly when \<^verbatim>\<open>findClosestHeartRate\<close>
  returns a rate other than 0.
\<close>

lemma generateGPX_structure:
  assumes "valid_date (startTime act)" "\<forall>pos\<in>set (act_positions act). valid_date (timestamp pos)"
  shows "generateGPX isoText str act =
     Inr (gpx_header (isoText (trunc (startTime act)))
          @ concat (map (code_trkpt isoText str (act_heartRates act)) (act_positions act))
          @ gpx_footer)"
  by (simp add: generateGPX_def Date_toISOString_valid [OF assms(1)]
      forEach_position_code_trkpt [OF assms(2)])

lemma generateGPX_invalid_start:
  "\<not> valid_date (startTime act) \<Longrightarrow> generateGPX isoText str act = Inl RangeError"
  by (simp add: generateGPX_def Date_toISOString_invalid)

lemma code_trkpt_eq_spec_trkpt:
  "findClosestHeartRate heartRates (timestamp pos) \<noteq> Some 0 \<Longrightarrow>
   code_trkpt isoText str heartRates pos = spec_trkpt isoText str heartRates pos"
  by (auto simp: code_trkpt_def spec_trkpt_def split: option.splits)

lemma extensions_block_nonempty: "extensions_block hr \<noteq> []"
  by (simp add: extensions_block_def)

lemma findClosestHeartRate_single:
  "findClosestHeartRate [h] ts = (if \<bar>ts - hr_timestamp h\<bar> \<le> 10000 then Some (heartRate h) else None)"
  by (simp add: findClosestHeartRate_def)

lemma fix_at_fields [simp]:
  "timestamp (fix_at lat lon ts) = ts"
  "altitude (fix_at lat lon ts) = None"
  "latitude (fix_at lat lon ts) = lat"
  "longitude (fix_at lat lon ts) = lon"
  by (simp_all add: fix_at_def)

text \<open>
  C4, at an Activity whose only heart-rate sample is 0 beats per minute at the time of
  its only fix: \<^verbatim>\<open>findClosestHeartRate\<close> finds the sample (difference 0 ms), the track
  point as specified carries the extensions block, and the document that
  \<^verbatim>\<open>generateGPX\<close> returns has none: \<^verbatim>\<open>if (closestHR)\<close> is false for the number 0.
\<close>

theorem generateGPX_zero_heart_rate_dropped:
  "findClosestHeartRate (act_heartRates zero_hr_activity) 1700000000000 = Some 0
   \<and> spec_trkpt isoText str (act_heartRates zero_hr_activity) (fix_at 48 2 1700000000000)
       = trkpt_open str (fix_at 48 2 1700000000000)
         @ time_element (isoText 1700000000000)
         @ extensions_block 0
         @ trkpt_close
   \<and> generateGPX isoText str zero_hr_activity
       = Inr (gpx_header (isoText 1700000000000)
              @ trkpt_open str (fix_at 48 2 1700000000000)
              @ time_element (isoText 1700000000000)
              @ trkpt_close
              @ gpx_footer)
   \<and> generateGPX isoText str zero_hr_activity
       \<noteq> Inr (gpx_header (isoText 1700000000000)
              @ spec_trkpt isoText str (act_heartRates zero_hr_activity)
                  (fix_at 48 2 1700000000000)
              @ gpx_footer)"
proof -
  have tr: "trunc 1700000000000 = 1700000000000"
    by (simp add: trunc_def)
  have hr: "findClosestHeartRate (act_heartRates zero_hr_activity) 1700000000000 = Some 0"
    by (simp add: zero_hr_activity_def findClosestHeartRate_single)
  have sp: "spec_trkpt isoText str (act_heartRates zero_hr_activity) (fix_at 48 2 1700000000000)
       = trkpt_open str (fix_at 48 2 1700000000000)
         @ time_element (isoText 1700000000000)
         @ extensions_block 0
         @ trkpt_close"
    by (simp add: spec_trkpt_def hr tr)
  have co: "code_trkpt isoText str (act_heartRates zero_hr_activity) (fix_at 48 2 1700000000000)
       = trkpt_open str (fix_at 48 2 1700000000000)
         @ time_element (isoText 1700000000000)
         @ trkpt_close"
    by (simp add: code_trkpt_def hr tr)
  have valid: "valid_date (startTime zero_hr_activity)"
    "\<forall>pos\<in>set (act_positions zero_hr_activity). valid_date (timestamp pos)"
    by (simp_all add: zero_hr_activity_def valid_date_def)
  have gen: "generateGPX isoText str zero_hr_activity
       = Inr (gpx_header (isoText 1700000000000)
              @ trkpt_open str (fix_at 48 2 1700000000000)
              @ time_element (isoText 1700000000000)
              @ trkpt_close
              @ gpx_footer)"
    unfolding generateGPX_structure [OF valid]
    by (simp add: zero_hr_activity_def tr co [unfolded zero_hr_activity_def, simplified])
  have "extensions_block 0 @ trkpt_close @ gpx_footer \<noteq> trkpt_close @ gpx_footer"
    using extensions_block_nonempty [of 0] by simp
  then have ne: "generateGPX isoText str zero_hr_activity
       \<noteq> Inr (gpx_header (isoText 1700000000000)
              @ spec_trkpt isoText str (act_heartRates zero_hr_activity)
                  (fix_at 48 2 1700000000000)
              @ gpx_footer)"
    unfolding gen sp by simp
  from hr sp gen ne show ?thesis by blast
qed

section \<open>Two consequences of the effect dependencies\<close>

text \<open>
  In the copy with the throttle the geolocation effect depends on \<^verbatim>\<open>time\<close>. A tick
  therefore runs the cleanup function of the effect, which clears the watch, and the
  effect body does not create a new one, since \<^verbatim>\<open>watchId\<close> still holds the old
  identifier.
\<close>

lemma tick_clears_watch:
  assumes "isRunning s" "watchId s = Some w" "w \<noteq> 0" "geoWatches s = {w}"
  shows "geoWatches (runEffects now tid wid s (tick s)) = {}"
    and "watchId (runEffects now tid wid s (tick s)) = Some w"
proof -
  let ?m = "gpsCleanup (watchId s) (timerCleanup (tick s))"
  have m: "isRunning ?m" "watchId ?m = Some w" "geoWatches ?m = {}"
    using assms by (simp_all add: tick_def gpsCleanup_def truthy_def geoWatches_clearWatch)
  have t: "isRunning (timerEffect now tid ?m)" "watchId (timerEffect now tid ?m) = Some w"
    "geoWatches (timerEffect now tid ?m) = {}"
    using m by (simp_all add: timerEffect_def Let_def)
  show "geoWatches (runEffects now tid wid s (tick s)) = {}"
    using t assms(3) by (simp add: runEffects_def gpsEffect_def truthy_def)
  show "watchId (runEffects now tid wid s (tick s)) = Some w"
    using t assms(3) by (simp add: runEffects_def gpsEffect_def truthy_def)
qed

text \<open>
  The position callback closes over the value of \<^verbatim>\<open>time\<close> of the render that created
  the watch. A callback created at elapsed time 0 never changes the displayed pace.
\<close>

lemma callback_created_at_zero_keeps_pace:
  "currentPace (onPosition 0 now position s) = currentPace s"
  "currentPace (onPosition_unsmoothed 0 position s) = currentPace s"
proof -
  have "\<not> computesPace 0 now position s"
    by (simp add: computesPace_def Let_def)
  then show "currentPace (onPosition 0 now position s) = currentPace s"
    by (rule onPosition_skips(2))
  show "currentPace (onPosition_unsmoothed 0 position s) = currentPace s"
    by (simp add: onPosition_unsmoothed_def Let_def)
qed
end
